theory Spec2Isabelle
  imports Main
begin

section \<open>Data model: the tables of the event management schema\<close>

text \<open>
  The schema migration declares four enum types and five tables. A uuid is modelled as a
  natural number, a timestamp as an integer (milliseconds), a nullable column as an
  option. Columns that no policy, constraint or statement of the application reads
  (description, category, venue, address, price, banner, seat number, due date) are left out.
\<close>

type_synonym uuid = nat

datatype user_role = organizer | volunteer | attendee

datatype event_status = draft | published | ongoing | completed | cancelled

datatype registration_status = reg_pending | confirmed | reg_cancelled | attended

datatype task_status = task_pending | in_progress | task_completed

record profile =
  p_id :: uuid
  p_email :: string
  p_full_name :: string
  p_phone :: "string option"
  p_role :: user_role
  p_company :: "string option"
  p_skills :: "string list option"
  p_updated_at :: int

record event =
  e_id :: uuid
  organizer_id :: uuid
  title :: string
  date_time :: int
  capacity :: int
  e_status :: event_status

record registration =
  r_id :: uuid
  event_id :: uuid
  attendee_id :: uuid
  registration_date :: int
  r_status :: registration_status
  ticket_number :: string
  checked_in :: bool

record volunteer_assignment =
  va_id :: uuid
  va_event_id :: uuid
  volunteer_id :: uuid
  assigned_role :: string

record event_task =
  t_id :: uuid
  t_event_id :: uuid
  t_volunteer_id :: "uuid option"
  t_title :: string
  t_status :: task_status
  completed_at :: "int option"

record db =
  profiles :: "profile list"
  events :: "event list"
  event_registrations :: "registration list"
  volunteer_assignments :: "volunteer_assignment list"
  event_tasks :: "event_task list"

definition empty_db :: db where
  "empty_db = \<lparr>profiles = [], events = [], event_registrations = [],
     volunteer_assignments = [], event_tasks = []\<rparr>"

text \<open>
  The errors the database raises, by their SQLSTATE class; a constraint violation names
  the constraint. A statement that raises leaves the database as it was.
\<close>

datatype db_error =
    Invalid_text_representation
  | Not_null_violation string
  | Unique_violation string
  | Foreign_key_violation string
  | Check_violation string
  | Insufficient_privilege string

definition state_after :: "db \<Rightarrow> db_error + db \<Rightarrow> db" where
  "state_after d res = (case res of Inl e \<Rightarrow> d | Inr d' \<Rightarrow> d')"

section \<open>Identity bridge: the trigger function handle\_new\_user\<close>

text \<open>
  The row of auth.users the trigger receives as NEW. The metadata is a JSON object; the
  operator \<open>->>\<close> reads a key as text and gives NULL when the key is absent.
\<close>

record auth_user =
  au_id :: uuid
  au_email :: string
  raw_user_meta_data :: "(string \<times> string) list"

definition meta_text :: "auth_user \<Rightarrow> string \<Rightarrow> string option" where
  "meta_text new k = map_of (raw_user_meta_data new) k"

text \<open>The cast \<open>text::user_role\<close>: a label of the enum, or an error.\<close>

definition cast_user_role :: "string \<Rightarrow> db_error + user_role" where
  "cast_user_role s =
     (if s = ''organizer'' then Inr organizer
      else if s = ''volunteer'' then Inr volunteer
      else if s = ''attendee'' then Inr attendee
      else Inl Invalid_text_representation)"

text \<open>The cast of a nullable text: NULL casts to NULL.\<close>

definition cast_user_role_null :: "string option \<Rightarrow> db_error + user_role option" where
  "cast_user_role_null t =
     (case t of
        None \<Rightarrow> Inr None
      | Some s \<Rightarrow> (case cast_user_role s of Inl e \<Rightarrow> Inl e | Inr r \<Rightarrow> Inr (Some r)))"

text \<open>
  INSERT INTO profiles (id, email, full\_name, role, phone): full\_name and role are
  NOT NULL columns, so an explicit NULL is refused (the column default does not
  apply to an explicit NULL); id is the primary key.
\<close>

definition insert_profile ::
  "db \<Rightarrow> int \<Rightarrow> uuid \<Rightarrow> string \<Rightarrow> string option \<Rightarrow> user_role option \<Rightarrow> string option
     \<Rightarrow> db_error + db" where
  "insert_profile d now pid email full_name role phone =
     (case full_name of
        None \<Rightarrow> Inl (Not_null_violation ''full_name'')
      | Some fnm \<Rightarrow>
          (case role of
             None \<Rightarrow> Inl (Not_null_violation ''role'')
           | Some r \<Rightarrow>
               if pid \<in> p_id ` set (profiles d) then Inl (Unique_violation ''profiles_pkey'')
               else Inr (d\<lparr>profiles := profiles d @
                      [\<lparr>p_id = pid, p_email = email, p_full_name = fnm, p_phone = phone,
                        p_role = r, p_company = None, p_skills = None,
                        p_updated_at = now\<rparr>]\<rparr>)))"

text \<open>
  The first version of the trigger function (schema migration):
  full\_name is COALESCE(meta->>'full\_name', email) and
  role is COALESCE((meta->>'role')::user\_role, 'attendee').
\<close>

definition handle_new_user_schema :: "db \<Rightarrow> int \<Rightarrow> auth_user \<Rightarrow> db_error + db" where
  "handle_new_user_schema d now new =
     (case cast_user_role_null (meta_text new ''role'') of
        Inl e \<Rightarrow> Inl e
      | Inr r \<Rightarrow>
          insert_profile d now (au_id new) (au_email new)
            (Some (case meta_text new ''full_name'' of Some n \<Rightarrow> n | None \<Rightarrow> au_email new))
            (Some (case r of Some x \<Rightarrow> x | None \<Rightarrow> attendee))
            None)"

text \<open>
  The replacement of the later migrations (the last one is fix\_user\_creation\_trigger):
  the values are meta->>'full\_name', (meta->>'role')::user\_role and meta->>'phone',
  with no COALESCE.
\<close>

definition handle_new_user :: "db \<Rightarrow> int \<Rightarrow> auth_user \<Rightarrow> db_error + db" where
  "handle_new_user d now new =
     (case cast_user_role_null (meta_text new ''role'') of
        Inl e \<Rightarrow> Inl e
      | Inr r \<Rightarrow>
          insert_profile d now (au_id new) (au_email new)
            (meta_text new ''full_name'') r (meta_text new ''phone''))"

section \<open>Row level security policies\<close>

text \<open>
  \<open>auth.uid()\<close> is the first argument of every policy. The permissive policies of a
  table that apply to a command are joined by OR. The sub-selects of the schema
  migration's policies read the events and volunteer\_assignments tables.
\<close>

definition is_organizer_of :: "db \<Rightarrow> uuid \<Rightarrow> uuid \<Rightarrow> bool" where
  "is_organizer_of d uid eid = list_ex (\<lambda>e. e_id e = eid \<and> organizer_id e = uid) (events d)"

definition is_assigned_volunteer :: "db \<Rightarrow> uuid \<Rightarrow> uuid \<Rightarrow> bool" where
  "is_assigned_volunteer d uid eid =
     list_ex (\<lambda>a. va_event_id a = eid \<and> volunteer_id a = uid) (volunteer_assignments d)"

definition get_user_role :: "db \<Rightarrow> uuid \<Rightarrow> user_role option" where
  "get_user_role d uid = map_option p_role (find (\<lambda>p. p_id p = uid) (profiles d))"

subsection \<open>profiles\<close>

definition users_can_view_their_own_profile :: "uuid \<Rightarrow> profile \<Rightarrow> bool" where
  "users_can_view_their_own_profile uid p = (uid = p_id p)"

definition users_can_update_their_own_profile :: "uuid \<Rightarrow> profile \<Rightarrow> bool" where
  "users_can_update_their_own_profile uid p = (uid = p_id p)"

subsection \<open>events\<close>

text \<open>Schema migration: two policies apply to SELECT.\<close>

definition anyone_can_view_published_events :: "uuid \<Rightarrow> event \<Rightarrow> bool" where
  "anyone_can_view_published_events uid e = (e_status e = published \<or> uid = organizer_id e)"

definition organizers_can_manage_their_own_events :: "uuid \<Rightarrow> event \<Rightarrow> bool" where
  "organizers_can_manage_their_own_events uid e = (uid = organizer_id e)"

definition organizers_can_create_events :: "uuid \<Rightarrow> event \<Rightarrow> bool" where
  "organizers_can_create_events uid e = (uid = organizer_id e)"

definition events_select_schema :: "uuid \<Rightarrow> event \<Rightarrow> bool" where
  "events_select_schema uid e =
     (anyone_can_view_published_events uid e \<or> organizers_can_manage_their_own_events uid e)"

text \<open>
  Migration definitive\_function\_and\_policy\_fix: the SELECT policy
  "Events are public to view" is USING (true), and the FOR ALL policy asks for the
  organizer role as well.
\<close>

definition events_are_public_to_view :: "uuid \<Rightarrow> event \<Rightarrow> bool" where
  "events_are_public_to_view uid e = True"

definition organizers_can_manage_their_own_events_definitive ::
  "db \<Rightarrow> uuid \<Rightarrow> event \<Rightarrow> bool" where
  "organizers_can_manage_their_own_events_definitive d uid e =
     (get_user_role d uid = Some organizer \<and> organizer_id e = uid)"

definition events_select_definitive :: "db \<Rightarrow> uuid \<Rightarrow> event \<Rightarrow> bool" where
  "events_select_definitive d uid e =
     (events_are_public_to_view uid e \<or> organizers_can_manage_their_own_events_definitive d uid e)"

subsection \<open>event\_registrations\<close>

definition attendees_can_create_registrations :: "uuid \<Rightarrow> registration \<Rightarrow> bool" where
  "attendees_can_create_registrations uid r = (uid = attendee_id r)"

definition attendees_can_update_their_registrations :: "uuid \<Rightarrow> registration \<Rightarrow> bool" where
  "attendees_can_update_their_registrations uid r = (uid = attendee_id r)"

definition organizers_and_volunteers_can_update_registrations ::
  "db \<Rightarrow> uuid \<Rightarrow> registration \<Rightarrow> bool" where
  "organizers_and_volunteers_can_update_registrations d uid r =
     (is_organizer_of d uid (event_id r) \<or> is_assigned_volunteer d uid (event_id r))"

definition registrations_update_policy :: "db \<Rightarrow> uuid \<Rightarrow> registration \<Rightarrow> bool" where
  "registrations_update_policy d uid r =
     (attendees_can_update_their_registrations uid r \<or>
      organizers_and_volunteers_can_update_registrations d uid r)"

subsection \<open>volunteer\_assignments and event\_tasks\<close>

definition organizers_can_manage_volunteer_assignments ::
  "db \<Rightarrow> uuid \<Rightarrow> volunteer_assignment \<Rightarrow> bool" where
  "organizers_can_manage_volunteer_assignments d uid a = is_organizer_of d uid (va_event_id a)"

definition organizers_can_manage_tasks :: "db \<Rightarrow> uuid \<Rightarrow> event_task \<Rightarrow> bool" where
  "organizers_can_manage_tasks d uid t = is_organizer_of d uid (t_event_id t)"

definition volunteers_can_update_their_assigned_tasks :: "uuid \<Rightarrow> event_task \<Rightarrow> bool" where
  "volunteers_can_update_their_assigned_tasks uid t = (t_volunteer_id t = Some uid)"

definition tasks_update_policy :: "db \<Rightarrow> uuid \<Rightarrow> event_task \<Rightarrow> bool" where
  "tasks_update_policy d uid t =
     (organizers_can_manage_tasks d uid t \<or> volunteers_can_update_their_assigned_tasks uid t)"

section \<open>Statements on the tables\<close>

text \<open>
  An INSERT checks, in this order: the policy's WITH CHECK, the CHECK constraints,
  the unique indexes (primary key first, then in the order of the table definition),
  and the foreign keys. The generated values (row id, clock) are arguments.
\<close>

definition insert_event :: "db \<Rightarrow> uuid \<Rightarrow> event \<Rightarrow> db_error + db" where
  "insert_event d uid e =
     (if \<not> (organizers_can_create_events uid e \<or> organizers_can_manage_their_own_events uid e)
        then Inl (Insufficient_privilege ''events'')
      else if \<not> capacity e > 0 then Inl (Check_violation ''events_capacity_check'')
      else if e_id e \<in> e_id ` set (events d) then Inl (Unique_violation ''events_pkey'')
      else if organizer_id e \<notin> p_id ` set (profiles d)
        then Inl (Foreign_key_violation ''events_organizer_id_fkey'')
      else Inr (d\<lparr>events := events d @ [e]\<rparr>))"

definition insert_registration :: "db \<Rightarrow> uuid \<Rightarrow> registration \<Rightarrow> db_error + db" where
  "insert_registration d uid r =
     (if \<not> attendees_can_create_registrations uid r
        then Inl (Insufficient_privilege ''event_registrations'')
      else if r_id r \<in> r_id ` set (event_registrations d)
        then Inl (Unique_violation ''event_registrations_pkey'')
      else if ticket_number r \<in> ticket_number ` set (event_registrations d)
        then Inl (Unique_violation ''event_registrations_ticket_number_key'')
      else if list_ex (\<lambda>x. event_id x = event_id r \<and> attendee_id x = attendee_id r)
                (event_registrations d)
        then Inl (Unique_violation ''event_registrations_event_id_attendee_id_key'')
      else if event_id r \<notin> e_id ` set (events d)
        then Inl (Foreign_key_violation ''event_registrations_event_id_fkey'')
      else if attendee_id r \<notin> p_id ` set (profiles d)
        then Inl (Foreign_key_violation ''event_registrations_attendee_id_fkey'')
      else Inr (d\<lparr>event_registrations := event_registrations d @ [r]\<rparr>))"

definition insert_volunteer_assignment ::
  "db \<Rightarrow> uuid \<Rightarrow> volunteer_assignment \<Rightarrow> db_error + db" where
  "insert_volunteer_assignment d uid a =
     (if \<not> organizers_can_manage_volunteer_assignments d uid a
        then Inl (Insufficient_privilege ''volunteer_assignments'')
      else if va_id a \<in> va_id ` set (volunteer_assignments d)
        then Inl (Unique_violation ''volunteer_assignments_pkey'')
      else if list_ex (\<lambda>x. va_event_id x = va_event_id a \<and> volunteer_id x = volunteer_id a)
                (volunteer_assignments d)
        then Inl (Unique_violation ''volunteer_assignments_event_id_volunteer_id_key'')
      else if va_event_id a \<notin> e_id ` set (events d)
        then Inl (Foreign_key_violation ''volunteer_assignments_event_id_fkey'')
      else if volunteer_id a \<notin> p_id ` set (profiles d)
        then Inl (Foreign_key_violation ''volunteer_assignments_volunteer_id_fkey'')
      else Inr (d\<lparr>volunteer_assignments := volunteer_assignments d @ [a]\<rparr>))"

definition insert_event_task :: "db \<Rightarrow> uuid \<Rightarrow> event_task \<Rightarrow> db_error + db" where
  "insert_event_task d uid t =
     (if \<not> organizers_can_manage_tasks d uid t
        then Inl (Insufficient_privilege ''event_tasks'')
      else if t_id t \<in> t_id ` set (event_tasks d)
        then Inl (Unique_violation ''event_tasks_pkey'')
      else if t_event_id t \<notin> e_id ` set (events d)
        then Inl (Foreign_key_violation ''event_tasks_event_id_fkey'')
      else if (case t_volunteer_id t of None \<Rightarrow> False
               | Some v \<Rightarrow> v \<notin> p_id ` set (profiles d))
        then Inl (Foreign_key_violation ''event_tasks_volunteer_id_fkey'')
      else Inr (d\<lparr>event_tasks := event_tasks d @ [t]\<rparr>))"

text \<open>
  UPDATE ... WHERE id = x touches the rows the WHERE clause selects and the UPDATE
  policies let the caller see; the other rows stay, and no error is raised for them.
\<close>

definition update_registration_status ::
  "db \<Rightarrow> uuid \<Rightarrow> uuid \<Rightarrow> registration_status \<Rightarrow> db" where
  "update_registration_status d uid rid st =
     d\<lparr>event_registrations :=
         map (\<lambda>r. if r_id r = rid \<and> registrations_update_policy d uid r
                   then r\<lparr>r_status := st\<rparr> else r)
           (event_registrations d)\<rparr>"

text \<open>
  The profile update: the SET list names the columns to change. The policy has no
  column restriction, and the BEFORE UPDATE trigger stamps updated\_at.
\<close>

record profile_updates =
  set_full_name :: "string option"
  set_email :: "string option"
  set_phone :: "string option"
  set_company :: "string option"
  set_skills :: "string list option"
  set_role :: "user_role option"

definition apply_profile_updates :: "profile_updates \<Rightarrow> int \<Rightarrow> profile \<Rightarrow> profile" where
  "apply_profile_updates u now p =
     p\<lparr>p_full_name := (case set_full_name u of None \<Rightarrow> p_full_name p | Some v \<Rightarrow> v),
       p_email := (case set_email u of None \<Rightarrow> p_email p | Some v \<Rightarrow> v),
       p_phone := (case set_phone u of None \<Rightarrow> p_phone p | Some v \<Rightarrow> Some v),
       p_company := (case set_company u of None \<Rightarrow> p_company p | Some v \<Rightarrow> Some v),
       p_skills := (case set_skills u of None \<Rightarrow> p_skills p | Some v \<Rightarrow> Some v),
       p_role := (case set_role u of None \<Rightarrow> p_role p | Some v \<Rightarrow> v),
       p_updated_at := now\<rparr>"

definition update_profile :: "db \<Rightarrow> uuid \<Rightarrow> uuid \<Rightarrow> profile_updates \<Rightarrow> int \<Rightarrow> db" where
  "update_profile d uid pid u now =
     d\<lparr>profiles :=
         map (\<lambda>p. if p_id p = pid \<and> users_can_update_their_own_profile uid p
                   then apply_profile_updates u now p else p)
           (profiles d)\<rparr>"

text \<open>
  DELETE FROM events WHERE id = x: the rows the FOR ALL policy lets the caller see are
  removed, and ON DELETE CASCADE removes the registrations, assignments and tasks of
  every removed event.
\<close>

definition delete_event :: "db \<Rightarrow> uuid \<Rightarrow> uuid \<Rightarrow> db" where
  "delete_event d uid eid =
     (if list_ex (\<lambda>e. e_id e = eid \<and> organizers_can_manage_their_own_events uid e) (events d)
      then d\<lparr>events :=
               filter (\<lambda>e. \<not> (e_id e = eid \<and> organizers_can_manage_their_own_events uid e))
                 (events d),
             event_registrations := filter (\<lambda>r. event_id r \<noteq> eid) (event_registrations d),
             volunteer_assignments := filter (\<lambda>a. va_event_id a \<noteq> eid) (volunteer_assignments d),
             event_tasks := filter (\<lambda>t. t_event_id t \<noteq> eid) (event_tasks d)\<rparr>
      else d)"

text \<open>
  Deleting the auth.users row cascades to the profile, from there to the events the
  profile organizes and to the rows that name the profile as attendee or volunteer, and
  from the removed events to their registrations, assignments and tasks.
\<close>

definition delete_auth_user :: "db \<Rightarrow> uuid \<Rightarrow> db" where
  "delete_auth_user d uid =
     (let gone = e_id ` set (filter (\<lambda>e. organizer_id e = uid) (events d)) in
      d\<lparr>profiles := filter (\<lambda>p. p_id p \<noteq> uid) (profiles d),
        events := filter (\<lambda>e. organizer_id e \<noteq> uid) (events d),
        event_registrations :=
          filter (\<lambda>r. attendee_id r \<noteq> uid \<and> event_id r \<notin> gone) (event_registrations d),
        volunteer_assignments :=
          filter (\<lambda>a. volunteer_id a \<noteq> uid \<and> va_event_id a \<notin> gone) (volunteer_assignments d),
        event_tasks :=
          filter (\<lambda>t. t_volunteer_id t \<noteq> Some uid \<and> t_event_id t \<notin> gone) (event_tasks d)\<rparr>)"

section \<open>The application's operations\<close>

subsection \<open>Booking: EventDetailModal.handleRegister\<close>

text \<open>
  The ticket number is the template \<open>TKT-<Date.now()>-<random>\<close>: the clock in
  decimal and the upper-cased base-36 fragment of a random number, which is an argument.
\<close>

definition digit_char :: "nat \<Rightarrow> char" where
  "digit_char n = ''0123456789'' ! n"

function dec_string :: "nat \<Rightarrow> string" where
  "dec_string n =
     (if n < 10 then [digit_char n] else dec_string (n div 10) @ [digit_char (n mod 10)])"
  by pat_completeness auto
termination
  by (relation "measure (\<lambda>n. n)") auto

declare dec_string.simps [simp del]

definition ticketNumber :: "nat \<Rightarrow> string \<Rightarrow> string" where
  "ticketNumber now rnd = ''TKT-'' @ dec_string now @ ''-'' @ rnd"

text \<open>
  What the handler shows: nothing on the early return, the success alert, or the one
  failure alert (the error object goes to the console only).
\<close>

datatype outcome = Returned_early | Registered | Failed db_error

text \<open>
  handleRegister reads the caller's profile and the event shown in the modal. It returns
  at once without a profile or for a role other than attendee; otherwise it inserts a
  confirmed registration for (event.id, profile.id) with a fresh ticket number. The
  event's status, start time and capacity are not read. \<open>uid\<close> is the session's
  identity, \<open>nid\<close> the row id the database generates.
\<close>

definition handleRegister ::
  "db \<Rightarrow> uuid \<Rightarrow> profile option \<Rightarrow> event \<Rightarrow> nat \<Rightarrow> string \<Rightarrow> uuid \<Rightarrow> outcome \<times> db" where
  "handleRegister d uid prof ev now rnd nid =
     (case prof of
        None \<Rightarrow> (Returned_early, d)
      | Some p \<Rightarrow>
          if p_role p \<noteq> attendee then (Returned_early, d)
          else
            (case insert_registration d uid
                    \<lparr>r_id = nid, event_id = e_id ev, attendee_id = p_id p,
                      registration_date = int now, r_status = confirmed,
                      ticket_number = ticketNumber now rnd, checked_in = False\<rparr> of
               Inl err \<Rightarrow> (Failed err, d)
             | Inr d' \<Rightarrow> (Registered, d')))"

text \<open>
  The modal's gate on the button: the event object comes from \<open>select('*')\<close> on
  events, so its optional field registrations\_count is the second argument
  (undefined is None, and \<open>undefined || 0\<close> is 0).
\<close>

definition availableSeats :: "event \<Rightarrow> int option \<Rightarrow> int" where
  "availableSeats ev registrations_count =
     capacity ev - (case registrations_count of None \<Rightarrow> 0 | Some n \<Rightarrow> n)"

definition isUpcoming :: "event \<Rightarrow> int \<Rightarrow> bool" where
  "isUpcoming ev now = (date_time ev > now)"

definition register_button_shown :: "profile option \<Rightarrow> event \<Rightarrow> int option \<Rightarrow> int \<Rightarrow> bool" where
  "register_button_shown prof ev registrations_count now =
     (case prof of
        None \<Rightarrow> False
      | Some p \<Rightarrow> p_role p = attendee \<and> isUpcoming ev now
                    \<and> availableSeats ev registrations_count > 0)"

text \<open>The occupied seats of an event: its confirmed and attended registrations.\<close>

definition occupied :: "db \<Rightarrow> uuid \<Rightarrow> nat" where
  "occupied d eid =
     length (filter (\<lambda>r. event_id r = eid \<and> (r_status r = confirmed \<or> r_status r = attended))
               (event_registrations d))"

subsection \<open>Cancelling, deleting, completing a task\<close>

definition handleCancelBooking :: "db \<Rightarrow> uuid \<Rightarrow> uuid \<Rightarrow> db" where
  "handleCancelBooking d uid ticketId = update_registration_status d uid ticketId reg_cancelled"

definition handleDeleteEvent :: "db \<Rightarrow> uuid \<Rightarrow> uuid \<Rightarrow> db" where
  "handleDeleteEvent d uid eventId = delete_event d uid eventId"

definition markTaskComplete :: "db \<Rightarrow> uuid \<Rightarrow> uuid \<Rightarrow> int \<Rightarrow> db" where
  "markTaskComplete d uid taskId now =
     d\<lparr>event_tasks :=
         map (\<lambda>t. if t_id t = taskId \<and> tasks_update_policy d uid t
                   then t\<lparr>t_status := task_completed, completed_at := Some now\<rparr> else t)
           (event_tasks d)\<rparr>"

subsection \<open>The profile form: ProfilePage.handleSubmit\<close>

record formData =
  fd_full_name :: string
  fd_email :: string
  fd_phone :: string
  fd_company :: string
  fd_skills :: string

fun split_on :: "char \<Rightarrow> string \<Rightarrow> string list" where
  "split_on c [] = [[]]"
| "split_on c (x # xs) =
     (if x = c then [] # split_on c xs
      else (case split_on c xs of [] \<Rightarrow> [[x]] | w # ws \<Rightarrow> (x # w) # ws))"

definition is_space :: "char \<Rightarrow> bool" where
  "is_space ch = (ch \<in> set [CHR '' '', CHR 0x09, CHR 0x0A, CHR 0x0B, CHR 0x0C, CHR 0x0D])"

definition trim :: "string \<Rightarrow> string" where
  "trim s = rev (dropWhile is_space (rev (dropWhile is_space s)))"

text \<open>
  The updates object: the form's five fields, the skills split at commas, trimmed and
  without the empty ones. It has no role key.
\<close>

definition handleSubmit_updates :: "formData \<Rightarrow> profile_updates" where
  "handleSubmit_updates fd =
     \<lparr>set_full_name = Some (fd_full_name fd),
      set_email = Some (fd_email fd),
      set_phone = Some (fd_phone fd),
      set_company = Some (fd_company fd),
      set_skills = Some (if fd_skills fd = [] then []
                         else filter (\<lambda>w. w \<noteq> []) (map trim (split_on CHR '','' (fd_skills fd)))),
      set_role = None\<rparr>"

text \<open>
  Modelled from the spec: updateProfile of the AuthContext is not among the sources.
  The spec's policy table gives the Profile update to "self only", so it is the UPDATE
  of the caller's own row with the object it is given.
\<close>

definition updateProfile :: "db \<Rightarrow> uuid \<Rightarrow> profile_updates \<Rightarrow> int \<Rightarrow> db" where
  "updateProfile d uid u now = update_profile d uid uid u now"

definition handleSubmit :: "db \<Rightarrow> uuid \<Rightarrow> formData \<Rightarrow> int \<Rightarrow> db" where
  "handleSubmit d uid fd now = updateProfile d uid (handleSubmit_updates fd) now"

section \<open>Runs of the system\<close>

text \<open>
  One step is one statement against the database, by the application or by the identity
  provider; a statement that raises leaves the state as it was. The reachable states are
  the runs from the empty database.
\<close>

datatype op =
    New_user int auth_user
  | Delete_user uuid
  | Update_profile uuid uuid profile_updates int
  | Insert_event uuid event
  | Delete_event uuid uuid
  | Register uuid "profile option" event nat string uuid
  | Update_registration uuid uuid registration_status
  | Insert_assignment uuid volunteer_assignment
  | Insert_task uuid event_task
  | Mark_task_complete uuid uuid int

fun step :: "db \<Rightarrow> op \<Rightarrow> db" where
  "step d (New_user now new) = state_after d (handle_new_user d now new)"
| "step d (Delete_user uid) = delete_auth_user d uid"
| "step d (Update_profile uid pid u now) = update_profile d uid pid u now"
| "step d (Insert_event uid e) = state_after d (insert_event d uid e)"
| "step d (Delete_event uid eid) = handleDeleteEvent d uid eid"
| "step d (Register uid prof ev now rnd nid) = snd (handleRegister d uid prof ev now rnd nid)"
| "step d (Update_registration uid rid st) = update_registration_status d uid rid st"
| "step d (Insert_assignment uid a) = state_after d (insert_volunteer_assignment d uid a)"
| "step d (Insert_task uid t) = state_after d (insert_event_task d uid t)"
| "step d (Mark_task_complete uid tid now) = markTaskComplete d uid tid now"

definition run :: "db \<Rightarrow> op list \<Rightarrow> db" where
  "run d ops = foldl step d ops"

section \<open>The identity provider's table and the trigger\<close>







section \<open>Predicates of the properties\<close>

text \<open>Every registration, assignment and task names an event that is stored.\<close>

definition fk_valid :: "db \<Rightarrow> bool" where
  "fk_valid d =
     (list_all (\<lambda>r. event_id r \<in> e_id ` set (events d)) (event_registrations d) \<and>
      list_all (\<lambda>a. va_event_id a \<in> e_id ` set (events d)) (volunteer_assignments d) \<and>
      list_all (\<lambda>t. t_event_id t \<in> e_id ` set (events d)) (event_tasks d))"

text \<open>
  The statement succeeded and its only effect is one new profile row, with the given
  id, email, role and full name.
\<close>

definition creates_profile ::
  "db \<Rightarrow> db_error + db \<Rightarrow> uuid \<Rightarrow> string \<Rightarrow> user_role \<Rightarrow> string \<Rightarrow> bool" where
  "creates_profile d res pid email r n =
     (case res of
        Inl e \<Rightarrow> False
      | Inr d' \<Rightarrow>
          profiles d' \<noteq> [] \<and>
          d' = d\<lparr>profiles := profiles d @ [last (profiles d')]\<rparr> \<and>
          p_id (last (profiles d')) = pid \<and> p_email (last (profiles d')) = email \<and>
          p_role (last (profiles d')) = r \<and> p_full_name (last (profiles d')) = n)"

section \<open>Example data\<close>

text \<open>
  An organizer and two attendees as the identity provider announces them, the profiles
  the trigger makes of the attendees, and a published event with one seat.
\<close>

definition olga :: auth_user where
  "olga = \<lparr>au_id = 1, au_email = ''olga@example.org'',
            raw_user_meta_data = [(''full_name'', ''Olga''), (''role'', ''organizer'')]\<rparr>"

definition anna :: auth_user where
  "anna = \<lparr>au_id = 2, au_email = ''anna@example.org'',
            raw_user_meta_data = [(''full_name'', ''Anna''), (''role'', ''attendee'')]\<rparr>"

definition ben :: auth_user where
  "ben = \<lparr>au_id = 3, au_email = ''ben@example.org'',
           raw_user_meta_data = [(''full_name'', ''Ben''), (''role'', ''attendee'')]\<rparr>"

definition anna_profile :: profile where
  "anna_profile = \<lparr>p_id = 2, p_email = ''anna@example.org'', p_full_name = ''Anna'',
     p_phone = None, p_role = attendee, p_company = None, p_skills = None, p_updated_at = 0\<rparr>"

definition ben_profile :: profile where
  "ben_profile = \<lparr>p_id = 3, p_email = ''ben@example.org'', p_full_name = ''Ben'',
     p_phone = None, p_role = attendee, p_company = None, p_skills = None, p_updated_at = 0\<rparr>"

definition workshop :: event where
  "workshop = \<lparr>e_id = 10, organizer_id = 1, title = ''Workshop'', date_time = 1000,
     capacity = 1, e_status = published\<rparr>"

definition setup_ops :: "op list" where
  "setup_ops = [New_user 0 olga, New_user 0 anna, New_user 0 ben, Insert_event 1 workshop]"



text \<open>An update object that names the role, and a filled profile form.\<close>

definition role_change :: profile_updates where
  "role_change = \<lparr>set_full_name = None, set_email = None, set_phone = None,
     set_company = None, set_skills = None, set_role = Some organizer\<rparr>"

definition anna_form :: formData where
  "anna_form = \<lparr>fd_full_name = ''Anna B'', fd_email = ''anna@example.org'', fd_phone = ''555'',
     fd_company = ''ACME'', fd_skills = ''chess, go''\<rparr>"

text \<open>
  Runs used below: Anna books the workshop; then she cancels; and a run in which the
  workshop also gets a volunteer and a task and Anna is checked in as attended. The
  conference is a second event with free seats.
\<close>

definition booked_ops :: "op list" where
  "booked_ops = setup_ops @ [Register 2 (Some anna_profile) workshop 5 ''A1'' 100]"

definition cancelled_ops :: "op list" where
  "cancelled_ops = booked_ops @ [Update_registration 2 100 reg_cancelled]"

definition attended_ops :: "op list" where
  "attended_ops = setup_ops @
     [Register 2 (Some anna_profile) workshop 5 ''A1'' 100,
      Insert_assignment 1 \<lparr>va_id = 200, va_event_id = 10, volunteer_id = 3, assigned_role = ''door''\<rparr>,
      Insert_task 1 \<lparr>t_id = 300, t_event_id = 10, t_volunteer_id = Some 3, t_title = ''Badges'',
                     t_status = task_pending, completed_at = None\<rparr>,
      Update_registration 1 100 attended]"

definition conference :: event where
  "conference = \<lparr>e_id = 12, organizer_id = 1, title = ''Conference'', date_time = 2000,
     capacity = 50, e_status = published\<rparr>"

section \<open>Evaluating the examples\<close>

lemmas ex_defs = olga_def anna_def ben_def anna_profile_def ben_profile_def workshop_def
  setup_ops_def

lemmas run_defs = run_def empty_db_def state_after_def handle_new_user_def meta_text_def
  cast_user_role_null_def cast_user_role_def insert_profile_def insert_event_def
  organizers_can_create_events_def organizers_can_manage_their_own_events_def
  handleRegister_def insert_registration_def attendees_can_create_registrations_def
  ticketNumber_def dec_string.simps digit_char_def

lemma setup_db:
  "run empty_db setup_ops =
     \<lparr>profiles = [\<lparr>p_id = 1, p_email = ''olga@example.org'', p_full_name = ''Olga'',
                    p_phone = None, p_role = organizer, p_company = None, p_skills = None,
                    p_updated_at = 0\<rparr>, anna_profile, ben_profile],
      events = [workshop], event_registrations = [], volunteer_assignments = [],
      event_tasks = []\<rparr>"
  by (simp add: ex_defs run_defs)

lemma anna_db:
  "run empty_db [New_user 0 anna] =
     \<lparr>profiles = [anna_profile], events = [], event_registrations = [],
      volunteer_assignments = [], event_tasks = []\<rparr>"
  by (simp add: ex_defs run_defs)


lemma run_append: "run d (xs @ ys) = run (run d xs) ys"
  by (simp add: run_def)

lemma booked_db:
  "run empty_db booked_ops =
     \<lparr>profiles = [\<lparr>p_id = 1, p_email = ''olga@example.org'', p_full_name = ''Olga'',
                    p_phone = None, p_role = organizer, p_company = None, p_skills = None,
                    p_updated_at = 0\<rparr>, anna_profile, ben_profile],
      events = [workshop],
      event_registrations = [\<lparr>r_id = 100, event_id = 10, attendee_id = 2, registration_date = 5,
         r_status = confirmed, ticket_number = ''TKT-5-A1'', checked_in = False\<rparr>],
      volunteer_assignments = [], event_tasks = []\<rparr>"
  unfolding booked_ops_def run_append setup_db
  by (simp add: run_def handleRegister_def insert_registration_def
      attendees_can_create_registrations_def ticketNumber_def dec_string.simps digit_char_def
      anna_profile_def ben_profile_def workshop_def)

lemma cancelled_db:
  "run empty_db cancelled_ops =
     \<lparr>profiles = [\<lparr>p_id = 1, p_email = ''olga@example.org'', p_full_name = ''Olga'',
                    p_phone = None, p_role = organizer, p_company = None, p_skills = None,
                    p_updated_at = 0\<rparr>, anna_profile, ben_profile],
      events = [workshop],
      event_registrations = [\<lparr>r_id = 100, event_id = 10, attendee_id = 2, registration_date = 5,
         r_status = reg_cancelled, ticket_number = ''TKT-5-A1'', checked_in = False\<rparr>],
      volunteer_assignments = [], event_tasks = []\<rparr>"
  unfolding cancelled_ops_def run_append booked_db
  by (simp add: run_def update_registration_status_def registrations_update_policy_def
      attendees_can_update_their_registrations_def)

lemma cancel_is_update:
  "handleCancelBooking (run empty_db booked_ops) 2 100 = run empty_db cancelled_ops"
  unfolding cancelled_ops_def run_append by (simp add: run_def handleCancelBooking_def)

lemma attended_db:
  "run empty_db attended_ops =
     \<lparr>profiles = [\<lparr>p_id = 1, p_email = ''olga@example.org'', p_full_name = ''Olga'',
                    p_phone = None, p_role = organizer, p_company = None, p_skills = None,
                    p_updated_at = 0\<rparr>, anna_profile, ben_profile],
      events = [workshop],
      event_registrations = [\<lparr>r_id = 100, event_id = 10, attendee_id = 2, registration_date = 5,
         r_status = attended, ticket_number = ''TKT-5-A1'', checked_in = False\<rparr>],
      volunteer_assignments = [\<lparr>va_id = 200, va_event_id = 10, volunteer_id = 3,
         assigned_role = ''door''\<rparr>],
      event_tasks = [\<lparr>t_id = 300, t_event_id = 10, t_volunteer_id = Some 3, t_title = ''Badges'',
                     t_status = task_pending, completed_at = None\<rparr>]\<rparr>"
  unfolding attended_ops_def run_append setup_db
  by (simp add: run_def state_after_def handleRegister_def insert_registration_def
      attendees_can_create_registrations_def ticketNumber_def dec_string.simps digit_char_def
      insert_volunteer_assignment_def organizers_can_manage_volunteer_assignments_def
      is_organizer_of_def insert_event_task_def organizers_can_manage_tasks_def
      update_registration_status_def registrations_update_policy_def
      attendees_can_update_their_registrations_def
      organizers_and_volunteers_can_update_registrations_def is_assigned_volunteer_def
      anna_profile_def ben_profile_def workshop_def)

section \<open>What each statement leaves untouched, and the invariants of a run\<close>

lemma events_new_user [simp]:
  "events (state_after d (handle_new_user d now new)) = events d"
  "event_registrations (state_after d (handle_new_user d now new)) = event_registrations d"
  "volunteer_assignments (state_after d (handle_new_user d now new)) = volunteer_assignments d"
  "event_tasks (state_after d (handle_new_user d now new)) = event_tasks d"
  by (auto simp: state_after_def handle_new_user_def insert_profile_def
      split: sum.splits option.splits)

lemma image_kept:
  "x \<in> f ` set es \<Longrightarrow> x \<notin> f ` {e \<in> set es. P e} \<Longrightarrow> x \<in> f ` {e \<in> set es. \<not> P e}"
  by blast

lemma step_fk_valid: "fk_valid d \<Longrightarrow> fk_valid (step d x)"
proof (cases x)
  case (New_user now new)
  assume "fk_valid d"
  then show ?thesis using New_user by (simp add: fk_valid_def)
next
  case (Delete_user uid)
  assume "fk_valid d"
  then show ?thesis using Delete_user
    by (auto simp: fk_valid_def delete_auth_user_def Let_def list_all_iff intro!: image_kept)
next
  case (Update_profile uid pid u now)
  assume "fk_valid d"
  then show ?thesis using Update_profile by (simp add: fk_valid_def update_profile_def)
next
  case (Insert_event uid e)
  assume "fk_valid d"
  then show ?thesis using Insert_event
    by (auto simp: fk_valid_def insert_event_def state_after_def list_all_iff)
next
  case (Delete_event uid eid)
  assume "fk_valid d"
  then show ?thesis using Delete_event
    by (auto simp: fk_valid_def handleDeleteEvent_def delete_event_def list_all_iff list_ex_iff)
next
  case (Register uid prof ev now rnd nid)
  assume "fk_valid d"
  then show ?thesis using Register
    by (auto simp: fk_valid_def handleRegister_def insert_registration_def list_all_iff
        split: option.splits sum.splits if_splits)
next
  case (Update_registration uid rid st)
  assume "fk_valid d"
  then show ?thesis using Update_registration
    by (auto simp: fk_valid_def update_registration_status_def list_all_iff)
next
  case (Insert_assignment uid a)
  assume "fk_valid d"
  then show ?thesis using Insert_assignment
    by (auto simp: fk_valid_def insert_volunteer_assignment_def state_after_def list_all_iff)
next
  case (Insert_task uid t)
  assume "fk_valid d"
  then show ?thesis using Insert_task
    by (auto simp: fk_valid_def insert_event_task_def state_after_def list_all_iff)
next
  case (Mark_task_complete uid tid now)
  assume "fk_valid d"
  then show ?thesis using Mark_task_complete
    by (auto simp: fk_valid_def markTaskComplete_def list_all_iff)
qed


lemma handle_new_user_Inr:
  "handle_new_user d now new = Inr d' \<Longrightarrow>
     events d' = events d \<and> event_registrations d' = event_registrations d \<and>
     volunteer_assignments d' = volunteer_assignments d \<and> event_tasks d' = event_tasks d"
  by (auto simp: handle_new_user_def insert_profile_def split: sum.splits option.splits if_splits)

lemma tickets_update_status:
  "map ticket_number (event_registrations (update_registration_status d uid rid st)) =
   map ticket_number (event_registrations d)"
  by (simp add: update_registration_status_def comp_def if_distrib cong: if_cong)

lemma step_events_distinct:
  "distinct (map e_id (events d)) \<Longrightarrow> distinct (map e_id (events (step d x)))"
  by (cases x)
     (auto simp: delete_auth_user_def update_profile_def insert_event_def state_after_def
        handleDeleteEvent_def delete_event_def handleRegister_def insert_registration_def
        update_registration_status_def insert_volunteer_assignment_def insert_event_task_def
        markTaskComplete_def distinct_map_filter
        split: option.splits sum.splits if_splits dest: handle_new_user_Inr)

lemma step_tickets_distinct:
  "distinct (map ticket_number (event_registrations d)) \<Longrightarrow>
   distinct (map ticket_number (event_registrations (step d x)))"
  by (cases x)
     (auto simp: delete_auth_user_def update_profile_def insert_event_def state_after_def
        handleDeleteEvent_def delete_event_def handleRegister_def insert_registration_def
        tickets_update_status insert_volunteer_assignment_def insert_event_task_def
        markTaskComplete_def distinct_map_filter Let_def
        split: option.splits sum.splits if_splits dest: handle_new_user_Inr)

lemma run_invariant:
  assumes "\<And>d x. P d \<Longrightarrow> P (step d x)"
  shows "P d \<Longrightarrow> P (run d xs)"
proof (induction xs arbitrary: d)
  case Nil
  then show ?case by (simp add: run_def)
next
  case (Cons x xs)
  have "P (step d x)" using Cons.prems by (rule assms)
  then have "P (run (step d x) xs)" by (rule Cons.IH)
  then show ?case by (simp add: run_def)
qed

lemma reachable_fk_valid: "fk_valid (run empty_db xs)"
  by (rule run_invariant [where P = fk_valid, OF step_fk_valid])
     (simp_all add: fk_valid_def empty_db_def)

lemma reachable_events_distinct: "distinct (map e_id (events (run empty_db xs)))"
  by (rule run_invariant [where P = "\<lambda>d. distinct (map e_id (events d))", OF step_events_distinct])
     (simp_all add: empty_db_def)

lemma reachable_tickets_distinct:
  "distinct (map ticket_number (event_registrations (run empty_db xs)))"
  by (rule run_invariant [where P = "\<lambda>d. distinct (map ticket_number (event_registrations d))",
        OF step_tickets_distinct])
     (simp_all add: empty_db_def)

section \<open>Capacity\<close>

text \<open>
  C1. The claim: the confirmed and attended registrations of an event never exceed its
  capacity, and a booking at full capacity is rejected and inserts nothing. The code
  does not keep it. After the organizer and two attendees have signed up and the
  one-seat workshop is full with Anna's confirmed booking, the modal still shows the
  button to Ben (the event object has no registrations\_count, so all seats count as
  available), handleRegister succeeds, and the event holds two occupied seats.
\<close>

theorem overbooking_at_capacity:
  "occupied (run empty_db (setup_ops @ [Register 2 (Some anna_profile) workshop 5 ''A1'' 100])) 10 = 1
   \<and> capacity workshop = 1
   \<and> register_button_shown (Some ben_profile) workshop None 6
   \<and> fst (handleRegister
             (run empty_db (setup_ops @ [Register 2 (Some anna_profile) workshop 5 ''A1'' 100]))
             3 (Some ben_profile) workshop 6 ''B2'' 101) = Registered
   \<and> occupied (snd (handleRegister
             (run empty_db (setup_ops @ [Register 2 (Some anna_profile) workshop 5 ''A1'' 100]))
             3 (Some ben_profile) workshop 6 ''B2'' 101)) 10 = 2"
  by (simp add: ex_defs run_defs occupied_def register_button_shown_def isUpcoming_def
      availableSeats_def)

text \<open>
  C2. The claim: of N > C concurrent booking requests for an event of capacity C
  exactly C end confirmed and the others are rejected. Each request is one INSERT,
  which the database runs as a unit, so an interleaving of requests is an order of
  their inserts. The code does not keep the claim in any order: for the one-seat
  workshop both orders of Anna's and Ben's requests end with two occupied seats. It is
  the defect of C1: nothing on the booking path compares the occupied seats with the
  capacity.
\<close>

theorem concurrent_bookings_overbook:
  "capacity workshop = 1
   \<and> occupied (run empty_db (setup_ops @
        [Register 2 (Some anna_profile) workshop 5 ''A1'' 100,
         Register 3 (Some ben_profile) workshop 5 ''B2'' 101])) 10 = 2
   \<and> occupied (run empty_db (setup_ops @
        [Register 3 (Some ben_profile) workshop 5 ''B2'' 101,
         Register 2 (Some anna_profile) workshop 5 ''A1'' 100])) 10 = 2"
  unfolding run_append setup_db
  by (simp add: run_def occupied_def handleRegister_def insert_registration_def
      attendees_can_create_registrations_def ticketNumber_def dec_string.simps digit_char_def
      anna_profile_def ben_profile_def workshop_def)

section \<open>The role of a profile\<close>

lemma update_profile_other: "uid \<noteq> pid \<Longrightarrow> update_profile d uid pid u now = d"
proof -
  assume "uid \<noteq> pid"
  then have "map (\<lambda>p. if p_id p = pid \<and> users_can_update_their_own_profile uid p
                   then apply_profile_updates u now p else p) (profiles d) = profiles d"
    by (intro map_idI) (auto simp: users_can_update_their_own_profile_def)
  then show ?thesis by (simp add: update_profile_def)
qed

lemma apply_profile_updates_role:
  "p_role (apply_profile_updates u now p) = (case set_role u of None \<Rightarrow> p_role p | Some r \<Rightarrow> r)"
  by (simp add: apply_profile_updates_def)

lemma apply_profile_updates_id: "p_id (apply_profile_updates u now p) = p_id p"
  by (simp add: apply_profile_updates_def)

lemma update_profile_keeps_role:
  assumes "set_role u = None"
  shows "map p_role (profiles (update_profile d uid pid u now)) = map p_role (profiles d)"
  unfolding update_profile_def using assms by (simp add: apply_profile_updates_role)

lemma find_map_role:
  assumes "uid \<in> p_id ` set ps"
    and "\<And>p. p_id (f p) = p_id p"
    and "\<And>p. p_id p = uid \<Longrightarrow> p_role (f p) = r"
  shows "map_option p_role (find (\<lambda>p. p_id p = uid) (map f ps)) = Some r"
  using assms(1)
proof (induction ps)
  case Nil
  then show ?case by simp
next
  case (Cons a ps)
  show ?case
  proof (cases "p_id a = uid")
    case True
    then show ?thesis by (simp add: assms(2) assms(3))
  next
    case False
    with Cons show ?thesis by (auto simp: assms(2))
  qed
qed

lemma update_profile_sets_role:
  assumes "set_role u = Some r" and "uid \<in> p_id ` set (profiles d)"
  shows "get_user_role (update_profile d uid uid u now) uid = Some r"
proof -
  let ?f = "\<lambda>p. if p_id p = uid \<and> users_can_update_their_own_profile uid p
                 then apply_profile_updates u now p else p"
  have ids: "\<And>p. p_id (?f p) = p_id p"
    by (simp add: apply_profile_updates_id)
  have roles: "\<And>p. p_id p = uid \<Longrightarrow> p_role (?f p) = r"
    using assms(1)
    by (simp add: apply_profile_updates_role users_can_update_their_own_profile_def)
  have "map_option p_role (find (\<lambda>p. p_id p = uid) (map ?f (profiles d))) = Some r"
    using assms(2) ids roles by (rule find_map_role)
  then show ?thesis by (simp add: get_user_role_def update_profile_def)
qed

text \<open>
  C3, as amended. An update by anyone but the profile's own identity changes nothing;
  an update whose SET list has no role leaves every role as it was, and the update the
  profile form sends is of that kind; but the update policy restricts no column, so an
  update of one's own row that names the role sets it.
\<close>

theorem profile_role_update:
  "(uid \<noteq> pid \<longrightarrow> update_profile d uid pid u now = d)
   \<and> (set_role u = None \<longrightarrow>
        map p_role (profiles (update_profile d uid pid u now)) = map p_role (profiles d))
   \<and> map p_role (profiles (handleSubmit d uid fd now)) = map p_role (profiles d)
   \<and> (set_role u = Some r \<and> uid \<in> p_id ` set (profiles d) \<longrightarrow>
        get_user_role (update_profile d uid uid u now) uid = Some r)"
proof -
  have "set_role (handleSubmit_updates fd) = None"
    by (simp add: handleSubmit_updates_def)
  then have "map p_role (profiles (handleSubmit d uid fd now)) = map p_role (profiles d)"
    by (simp add: handleSubmit_def updateProfile_def update_profile_keeps_role)
  moreover have "set_role u = Some r \<and> uid \<in> p_id ` set (profiles d) \<longrightarrow>
        get_user_role (update_profile d uid uid u now) uid = Some r"
    using update_profile_sets_role [of u r uid d now] by simp
  ultimately show ?thesis
    by (simp add: update_profile_other update_profile_keeps_role)
qed

theorem profile_role_update_witness:
  "update_profile (run empty_db [New_user 0 anna]) 3 2 role_change 7 = run empty_db [New_user 0 anna]
   \<and> map p_role (profiles (handleSubmit (run empty_db [New_user 0 anna]) 2 anna_form 7)) = [attendee]
   \<and> get_user_role (update_profile (run empty_db [New_user 0 anna]) 2 2 role_change 7) 2
        = Some organizer"
  using profile_role_update [of 3 2 "run empty_db [New_user 0 anna]" role_change 7 anna_form organizer]
    profile_role_update [of 2 2 "run empty_db [New_user 0 anna]" role_change 7 anna_form organizer]
  by (simp add: anna_db anna_profile_def role_change_def)

theorem profile_role_counterexample:
  "get_user_role (run empty_db [New_user 0 anna]) 2 = Some attendee
   \<and> get_user_role (update_profile (run empty_db [New_user 0 anna]) 2 2 role_change 7) 2
        = Some organizer"
  by (simp add: anna_db anna_profile_def role_change_def get_user_role_def update_profile_def
      users_can_update_their_own_profile_def apply_profile_updates_def)

section \<open>The checks of a booking\<close>






section \<open>Provisioning a profile\<close>

lemma cast_user_role_labels:
  "cast_user_role ''organizer'' = Inr organizer"
  "cast_user_role ''volunteer'' = Inr volunteer"
  "cast_user_role ''attendee'' = Inr attendee"
  "s \<notin> {''organizer'', ''volunteer'', ''attendee''} \<Longrightarrow>
     cast_user_role s = Inl Invalid_text_representation"
  by (simp_all add: cast_user_role_def)

lemma cast_user_role_Inr:
  "cast_user_role s = Inr r \<Longrightarrow> s \<in> {''organizer'', ''volunteer'', ''attendee''}"
  by (auto simp: cast_user_role_def split: if_splits)

text \<open>
  C7, as amended. For an identity with no profile yet: when the metadata's role is one
  of the three labels and the full name is present, both versions of the trigger
  function create exactly the profile with that role and name. The schema migration's
  version also fills in: the e-mail for an absent full name, attendee for an absent
  role. A role text outside the three labels makes both versions raise (the enum cast
  fails) and no profile is created.
\<close>

theorem identity_bridge_provisioning:
  assumes fresh: "au_id new \<notin> p_id ` set (profiles d)"
  shows
    "(meta_text new ''role'' = Some s \<and> cast_user_role s = Inr r \<and>
        meta_text new ''full_name'' = Some n \<longrightarrow>
          creates_profile d (handle_new_user d now new) (au_id new) (au_email new) r n \<and>
          creates_profile d (handle_new_user_schema d now new) (au_id new) (au_email new) r n)
     \<and> (meta_text new ''role'' = Some s \<and> cast_user_role s = Inr r \<longrightarrow>
          creates_profile d (handle_new_user_schema d now new) (au_id new) (au_email new) r
            (case meta_text new ''full_name'' of Some m \<Rightarrow> m | None \<Rightarrow> au_email new))
     \<and> (meta_text new ''role'' = None \<longrightarrow>
          creates_profile d (handle_new_user_schema d now new) (au_id new) (au_email new) attendee
            (case meta_text new ''full_name'' of Some m \<Rightarrow> m | None \<Rightarrow> au_email new))
     \<and> (meta_text new ''role'' = Some s \<and>
          s \<notin> {''organizer'', ''volunteer'', ''attendee''} \<longrightarrow>
          handle_new_user d now new = Inl Invalid_text_representation \<and>
          handle_new_user_schema d now new = Inl Invalid_text_representation)"
  using fresh
  by (auto simp: creates_profile_def handle_new_user_def handle_new_user_schema_def
      insert_profile_def cast_user_role_null_def cast_user_role_labels
      split: option.splits)

theorem identity_bridge_provisioning_witness:
  "au_id anna \<notin> p_id ` set (profiles empty_db)
   \<and> creates_profile empty_db (handle_new_user empty_db 0 anna) 2 ''anna@example.org'' attendee ''Anna''
   \<and> creates_profile empty_db (handle_new_user_schema empty_db 0 anna) 2 ''anna@example.org''
        attendee ''Anna''
   \<and> creates_profile empty_db
        (handle_new_user_schema empty_db 0
           \<lparr>au_id = 5, au_email = ''max@example.org'', raw_user_meta_data = []\<rparr>)
        5 ''max@example.org'' attendee ''max@example.org''
   \<and> handle_new_user empty_db 0
        \<lparr>au_id = 4, au_email = ''eve@example.org'', raw_user_meta_data = [(''role'', ''admin'')]\<rparr>
        = Inl Invalid_text_representation"
proof -
  have h: "au_id anna \<notin> p_id ` set (profiles empty_db)"
    by (simp add: empty_db_def)
  have h5: "au_id \<lparr>au_id = 5, au_email = ''max@example.org'', raw_user_meta_data = []\<rparr>
              \<notin> p_id ` set (profiles empty_db)"
    by (simp add: empty_db_def)
  have h4: "au_id \<lparr>au_id = 4, au_email = ''eve@example.org'',
              raw_user_meta_data = [(''role'', ''admin'')]\<rparr> \<notin> p_id ` set (profiles empty_db)"
    by (simp add: empty_db_def)
  show ?thesis
    using h
      identity_bridge_provisioning [OF h, of "''attendee''" attendee "''Anna''" 0]
      identity_bridge_provisioning [OF h5, of "''x''" attendee "''x''" 0]
      identity_bridge_provisioning [OF h4, of "''admin''" attendee "''x''" 0]
    by (simp add: anna_def meta_text_def cast_user_role_def)
qed

theorem identity_bridge_counterexample:
  "handle_new_user empty_db 0
     \<lparr>au_id = 4, au_email = ''eve@example.org'',
      raw_user_meta_data = [(''full_name'', ''Eve''), (''role'', ''admin'')]\<rparr>
     = Inl Invalid_text_representation
   \<and> handle_new_user_schema empty_db 0
     \<lparr>au_id = 4, au_email = ''eve@example.org'',
      raw_user_meta_data = [(''full_name'', ''Eve''), (''role'', ''admin'')]\<rparr>
     = Inl Invalid_text_representation"
  by (simp add: run_defs handle_new_user_schema_def)

section \<open>A second event for the same identity\<close>











section \<open>Reading events\<close>

text \<open>
  C9, as amended. Under the policies of the schema migration an event is readable
  exactly when it is published or the reader is its organizer. Under the policies of
  the definitive\_function\_and\_policy\_fix migration ("Events are public to view",
  USING (true)) every event is readable by everyone.
\<close>

theorem events_read_policy:
  "(events_select_schema uid e \<longleftrightarrow> (e_status e = published \<or> uid = organizer_id e))
   \<and> events_select_definitive d uid e"
  by (auto simp: events_select_schema_def anyone_can_view_published_events_def
      organizers_can_manage_their_own_events_def events_select_definitive_def
      events_are_public_to_view_def)

theorem events_read_policy_witness:
  "\<not> events_select_schema 2 (workshop\<lparr>e_status := draft\<rparr>)
   \<and> events_select_schema 1 (workshop\<lparr>e_status := draft\<rparr>)
   \<and> events_select_schema 2 workshop
   \<and> events_select_definitive empty_db 2 (workshop\<lparr>e_status := draft\<rparr>)"
  using events_read_policy [of 2 "workshop\<lparr>e_status := draft\<rparr>" empty_db]
    events_read_policy [of 1 "workshop\<lparr>e_status := draft\<rparr>" empty_db]
    events_read_policy [of 2 workshop empty_db]
  by (simp add: workshop_def)

theorem events_read_policy_counterexample:
  "\<not> (events_select_definitive empty_db 2 (workshop\<lparr>e_status := draft\<rparr>) \<longleftrightarrow>
        (e_status (workshop\<lparr>e_status := draft\<rparr>) = published
         \<or> 2 = organizer_id (workshop\<lparr>e_status := draft\<rparr>)))"
  by (simp add: workshop_def events_select_definitive_def events_are_public_to_view_def)

section \<open>Deleting an event\<close>

lemma delete_event_owner:
  assumes "is_organizer_of d uid eid"
  shows "handleDeleteEvent d uid eid =
     d\<lparr>events := filter (\<lambda>e. \<not> (e_id e = eid \<and> uid = organizer_id e)) (events d),
       event_registrations := filter (\<lambda>r. event_id r \<noteq> eid) (event_registrations d),
       volunteer_assignments := filter (\<lambda>a. va_event_id a \<noteq> eid) (volunteer_assignments d),
       event_tasks := filter (\<lambda>t. t_event_id t \<noteq> eid) (event_tasks d)\<rparr>"
proof -
  from assms obtain e where "e \<in> set (events d)" "e_id e = eid" "organizer_id e = uid"
    unfolding is_organizer_of_def list_ex_iff by blast
  then have "list_ex (\<lambda>e. e_id e = eid \<and> uid = organizer_id e) (events d)"
    unfolding list_ex_iff by blast
  then show ?thesis
    unfolding handleDeleteEvent_def delete_event_def organizers_can_manage_their_own_events_def
    by simp
qed

lemma delete_event_children:
  assumes "is_organizer_of d uid eid"
  shows "eid \<notin> event_id ` set (event_registrations (handleDeleteEvent d uid eid))"
    and "eid \<notin> va_event_id ` set (volunteer_assignments (handleDeleteEvent d uid eid))"
    and "eid \<notin> t_event_id ` set (event_tasks (handleDeleteEvent d uid eid))"
  unfolding delete_event_owner [OF assms] by auto

lemma delete_event_gone:
  assumes "is_organizer_of d uid eid" and "distinct (map e_id (events d))"
  shows "eid \<notin> e_id ` set (events (handleDeleteEvent d uid eid))"
proof
  assume "eid \<in> e_id ` set (events (handleDeleteEvent d uid eid))"
  then obtain e' where e': "e' \<in> set (events d)" "e_id e' = eid" "uid \<noteq> organizer_id e'"
    unfolding delete_event_owner [OF assms(1)] by auto
  from assms(1) obtain e where e: "e \<in> set (events d)" "e_id e = eid" "organizer_id e = uid"
    unfolding is_organizer_of_def list_ex_iff by blast
  have "inj_on e_id (set (events d))"
    using assms(2) by (simp add: distinct_map)
  then have "e = e'" using e e' by (simp add: inj_on_def)
  then show False using e e' by simp
qed

text \<open>
  C10. In every reachable state each registration, assignment and task names a stored
  event; and when the organizer of an event deletes it, the event is gone and no
  registration (whatever its status), assignment or task of that event survives.
\<close>

theorem event_delete_cascades:
  "fk_valid (run empty_db xs)
   \<and> (is_organizer_of (run empty_db xs) uid eid \<longrightarrow>
        eid \<notin> e_id ` set (events (handleDeleteEvent (run empty_db xs) uid eid)) \<and>
        eid \<notin> event_id ` set (event_registrations (handleDeleteEvent (run empty_db xs) uid eid)) \<and>
        eid \<notin> va_event_id ` set (volunteer_assignments (handleDeleteEvent (run empty_db xs) uid eid)) \<and>
        eid \<notin> t_event_id ` set (event_tasks (handleDeleteEvent (run empty_db xs) uid eid)))"
proof (intro conjI impI)
  show "fk_valid (run empty_db xs)" by (rule reachable_fk_valid)
next
  assume h: "is_organizer_of (run empty_db xs) uid eid"
  show "eid \<notin> e_id ` set (events (handleDeleteEvent (run empty_db xs) uid eid))"
    using h reachable_events_distinct by (rule delete_event_gone)
  show "eid \<notin> event_id ` set (event_registrations (handleDeleteEvent (run empty_db xs) uid eid))"
    using h by (rule delete_event_children(1))
  show "eid \<notin> va_event_id ` set (volunteer_assignments (handleDeleteEvent (run empty_db xs) uid eid))"
    using h by (rule delete_event_children(2))
  show "eid \<notin> t_event_id ` set (event_tasks (handleDeleteEvent (run empty_db xs) uid eid))"
    using h by (rule delete_event_children(3))
qed

theorem event_delete_cascades_witness:
  "is_organizer_of (run empty_db attended_ops) 1 10
   \<and> map r_status (event_registrations (run empty_db attended_ops)) = [attended]
   \<and> fk_valid (run empty_db attended_ops)
   \<and> 10 \<notin> e_id ` set (events (handleDeleteEvent (run empty_db attended_ops) 1 10))
   \<and> 10 \<notin> event_id ` set (event_registrations (handleDeleteEvent (run empty_db attended_ops) 1 10))
   \<and> handleDeleteEvent (run empty_db attended_ops) 1 10 =
        (run empty_db attended_ops)\<lparr>events := [], event_registrations := [],
           volunteer_assignments := [], event_tasks := []\<rparr>"
proof -
  have h: "is_organizer_of (run empty_db attended_ops) 1 10"
    by (simp add: attended_db is_organizer_of_def workshop_def)
  have del: "handleDeleteEvent (run empty_db attended_ops) 1 10 =
        (run empty_db attended_ops)\<lparr>events := [], event_registrations := [],
           volunteer_assignments := [], event_tasks := []\<rparr>"
    by (simp add: attended_db handleDeleteEvent_def delete_event_def workshop_def
        organizers_can_manage_their_own_events_def)
  have st: "map r_status (event_registrations (run empty_db attended_ops)) = [attended]"
    by (simp add: attended_db)
  show ?thesis
    using h del st event_delete_cascades [of attended_ops 1 10] by simp
qed

section \<open>Booking again after a cancellation\<close>

lemma pairs_after_status_update:
  "list_ex (\<lambda>x. event_id x = eid \<and> attendee_id x = aid)
     (map (\<lambda>r. if c r then r\<lparr>r_status := st\<rparr> else r) rs) =
   list_ex (\<lambda>x. event_id x = eid \<and> attendee_id x = aid) rs"
  by (induction rs) simp_all

lemma cancel_keeps_pairs:
  "list_ex (\<lambda>x. event_id x = eid \<and> attendee_id x = aid)
     (event_registrations (handleCancelBooking d uid rid)) =
   list_ex (\<lambda>x. event_id x = eid \<and> attendee_id x = aid) (event_registrations d)"
  unfolding handleCancelBooking_def update_registration_status_def
  by (simp add: pairs_after_status_update)

lemma insert_registration_pair_exists:
  assumes "list_ex (\<lambda>x. event_id x = event_id r \<and> attendee_id x = attendee_id r)
             (event_registrations d)"
  shows "\<exists>err. insert_registration d uid r = Inl err"
  using assms by (simp add: insert_registration_def)

lemma handleRegister_Registered:
  assumes "handleRegister d uid (Some p) ev now rnd nid = (Registered, d1)"
  shows "p_role p = attendee"
    and "list_ex (\<lambda>x. event_id x = e_id ev \<and> attendee_id x = p_id p) (event_registrations d1)"
  using assms
  by (auto simp: handleRegister_def insert_registration_def split: if_splits sum.splits)

lemma cancel_own_rows:
  assumes "\<forall>x\<in>set (event_registrations d). r_id x = rid \<longrightarrow> attendee_id x = uid"
  shows "handleCancelBooking d uid rid =
     d\<lparr>event_registrations :=
         map (\<lambda>x. if r_id x = rid then x\<lparr>r_status := reg_cancelled\<rparr> else x)
           (event_registrations d)\<rparr>"
proof -
  have "map (\<lambda>r. if r_id r = rid \<and> registrations_update_policy d uid r
                  then r\<lparr>r_status := reg_cancelled\<rparr> else r) (event_registrations d) =
        map (\<lambda>x. if r_id x = rid then x\<lparr>r_status := reg_cancelled\<rparr> else x)
          (event_registrations d)"
    using assms
    by (intro map_cong refl)
       (simp add: registrations_update_policy_def attendees_can_update_their_registrations_def)
  then show ?thesis
    unfolding handleCancelBooking_def update_registration_status_def by simp
qed

lemma handleRegister_Registered_state:
  assumes "handleRegister d uid (Some p) ev now rnd nid = (Registered, d1)"
  shows "uid = p_id p"
    and "nid \<notin> r_id ` set (event_registrations d)"
    and "d1 = d\<lparr>event_registrations := event_registrations d @
               [\<lparr>r_id = nid, event_id = e_id ev, attendee_id = p_id p,
                 registration_date = int now, r_status = confirmed,
                 ticket_number = ticketNumber now rnd, checked_in = False\<rparr>]\<rparr>"
  using assms
  by (auto simp: handleRegister_def insert_registration_def
      attendees_can_create_registrations_def split: if_splits sum.splits)

lemma cancel_after_booking:
  assumes reg: "handleRegister d uid (Some p) ev now rnd nid = (Registered, d1)"
  shows "handleCancelBooking d1 uid nid =
     d\<lparr>event_registrations := event_registrations d @
        [\<lparr>r_id = nid, event_id = e_id ev, attendee_id = p_id p,
          registration_date = int now, r_status = reg_cancelled,
          ticket_number = ticketNumber now rnd, checked_in = False\<rparr>]\<rparr>"
proof -
  note st = handleRegister_Registered_state [OF reg]
  have own: "\<forall>x\<in>set (event_registrations d1). r_id x = nid \<longrightarrow> attendee_id x = uid"
    using st by auto
  have keep: "map (\<lambda>x. if r_id x = nid then x\<lparr>r_status := reg_cancelled\<rparr> else x)
                (event_registrations d) = event_registrations d"
    using st(2) by (intro map_idI) auto
  show ?thesis
    unfolding cancel_own_rows [OF own] using keep by (simp add: st(3))
qed

text \<open>
  C5, as amended. For an attendee acting as itself, with a fresh row id and ticket
  number: when a registration of any status for (event, attendee) is stored, the booking
  fails with the unique violation on (event\_id, attendee\_id) and inserts nothing; when
  none is stored, the event is stored with a free seat and the profile is stored, the
  booking is inserted as confirmed. Cancelling one's own registration sets its status
  to cancelled and changes nothing else: the row stays. So after a booking that
  succeeded and its cancellation the row is there with status cancelled, and every
  further booking by the same attendee for the same event fails and inserts nothing.
\<close>

theorem booking_rejected_for_any_existing_row:
  "(p_role p = attendee \<and> uid = p_id p \<and> nid \<notin> r_id ` set (event_registrations d) \<and>
      ticketNumber now rnd \<notin> ticket_number ` set (event_registrations d) \<and>
      list_ex (\<lambda>x. event_id x = e_id ev \<and> attendee_id x = p_id p) (event_registrations d) \<longrightarrow>
        handleRegister d uid (Some p) ev now rnd nid =
          (Failed (Unique_violation ''event_registrations_event_id_attendee_id_key''), d))
   \<and> (p_role p = attendee \<and> uid = p_id p \<and> nid \<notin> r_id ` set (event_registrations d) \<and>
      ticketNumber now rnd \<notin> ticket_number ` set (event_registrations d) \<and>
      \<not> list_ex (\<lambda>x. event_id x = e_id ev \<and> attendee_id x = p_id p) (event_registrations d) \<and>
      list_ex (\<lambda>e. e_id e = e_id ev \<and> int (occupied d (e_id ev)) < capacity e) (events d) \<and>
      p_id p \<in> p_id ` set (profiles d) \<longrightarrow>
        handleRegister d uid (Some p) ev now rnd nid =
          (Registered,
           d\<lparr>event_registrations := event_registrations d @
              [\<lparr>r_id = nid, event_id = e_id ev, attendee_id = p_id p,
                registration_date = int now, r_status = confirmed,
                ticket_number = ticketNumber now rnd, checked_in = False\<rparr>]\<rparr>))
   \<and> ((\<forall>x\<in>set (event_registrations d). r_id x = rid \<longrightarrow> attendee_id x = uid') \<longrightarrow>
        handleCancelBooking d uid' rid =
          d\<lparr>event_registrations :=
              map (\<lambda>x. if r_id x = rid then x\<lparr>r_status := reg_cancelled\<rparr> else x)
                (event_registrations d)\<rparr>)
   \<and> (handleRegister d uid (Some p) ev now rnd nid = (Registered, d1) \<longrightarrow>
        handleCancelBooking d1 uid nid =
          d\<lparr>event_registrations := event_registrations d @
             [\<lparr>r_id = nid, event_id = e_id ev, attendee_id = p_id p,
               registration_date = int now, r_status = reg_cancelled,
               ticket_number = ticketNumber now rnd, checked_in = False\<rparr>]\<rparr> \<and>
        (\<exists>err. handleRegister (handleCancelBooking d1 uid nid) uid (Some p) ev now' rnd' nid' =
                 (Failed err, handleCancelBooking d1 uid nid)))"
proof (intro conjI impI)
  assume "p_role p = attendee \<and> uid = p_id p \<and> nid \<notin> r_id ` set (event_registrations d) \<and>
      ticketNumber now rnd \<notin> ticket_number ` set (event_registrations d) \<and>
      list_ex (\<lambda>x. event_id x = e_id ev \<and> attendee_id x = p_id p) (event_registrations d)"
  then show "handleRegister d uid (Some p) ev now rnd nid =
          (Failed (Unique_violation ''event_registrations_event_id_attendee_id_key''), d)"
    by (simp add: handleRegister_def insert_registration_def
        attendees_can_create_registrations_def)
next
  assume h: "p_role p = attendee \<and> uid = p_id p \<and> nid \<notin> r_id ` set (event_registrations d) \<and>
      ticketNumber now rnd \<notin> ticket_number ` set (event_registrations d) \<and>
      \<not> list_ex (\<lambda>x. event_id x = e_id ev \<and> attendee_id x = p_id p) (event_registrations d) \<and>
      list_ex (\<lambda>e. e_id e = e_id ev \<and> int (occupied d (e_id ev)) < capacity e) (events d) \<and>
      p_id p \<in> p_id ` set (profiles d)"
  then have "list_ex (\<lambda>e. e_id e = e_id ev \<and> int (occupied d (e_id ev)) < capacity e) (events d)"
    by simp
  then obtain e where "e \<in> set (events d)" and "e_id e = e_id ev"
    unfolding list_ex_iff by blast
  then have "e_id ev \<in> e_id ` set (events d)"
    by (metis imageI)
  with h show "handleRegister d uid (Some p) ev now rnd nid =
          (Registered,
           d\<lparr>event_registrations := event_registrations d @
              [\<lparr>r_id = nid, event_id = e_id ev, attendee_id = p_id p,
                registration_date = int now, r_status = confirmed,
                ticket_number = ticketNumber now rnd, checked_in = False\<rparr>]\<rparr>)"
    by (simp add: handleRegister_def insert_registration_def
        attendees_can_create_registrations_def)
next
  assume "\<forall>x\<in>set (event_registrations d). r_id x = rid \<longrightarrow> attendee_id x = uid'"
  then show "handleCancelBooking d uid' rid =
          d\<lparr>event_registrations :=
              map (\<lambda>x. if r_id x = rid then x\<lparr>r_status := reg_cancelled\<rparr> else x)
                (event_registrations d)\<rparr>"
    by (rule cancel_own_rows)
next
  assume reg: "handleRegister d uid (Some p) ev now rnd nid = (Registered, d1)"
  then show "handleCancelBooking d1 uid nid =
          d\<lparr>event_registrations := event_registrations d @
             [\<lparr>r_id = nid, event_id = e_id ev, attendee_id = p_id p,
               registration_date = int now, r_status = reg_cancelled,
               ticket_number = ticketNumber now rnd, checked_in = False\<rparr>]\<rparr>"
    by (rule cancel_after_booking)
next
  assume reg: "handleRegister d uid (Some p) ev now rnd nid = (Registered, d1)"
  let ?d2 = "handleCancelBooking d1 uid nid"
  let ?row = "\<lparr>r_id = nid', event_id = e_id ev, attendee_id = p_id p,
                registration_date = int now', r_status = confirmed,
                ticket_number = ticketNumber now' rnd', checked_in = False\<rparr>"
  have role: "p_role p = attendee" using reg by (rule handleRegister_Registered(1))
  have "list_ex (\<lambda>x. event_id x = e_id ev \<and> attendee_id x = p_id p) (event_registrations ?d2)"
    using handleRegister_Registered(2) [OF reg] by (simp add: cancel_keeps_pairs)
  then have "list_ex (\<lambda>x. event_id x = event_id ?row \<and> attendee_id x = attendee_id ?row)
               (event_registrations ?d2)"
    by simp
  then obtain err where "insert_registration ?d2 uid ?row = Inl err"
    using insert_registration_pair_exists by blast
  then have "handleRegister ?d2 uid (Some p) ev now' rnd' nid' = (Failed err, ?d2)"
    using role by (simp add: handleRegister_def)
  then show "\<exists>err. handleRegister ?d2 uid (Some p) ev now' rnd' nid' = (Failed err, ?d2)"
    by blast
qed

theorem booking_rejected_for_any_existing_row_witness:
  "handleRegister (run empty_db cancelled_ops) 2 (Some anna_profile) workshop 6 ''A2'' 101
     = (Failed (Unique_violation ''event_registrations_event_id_attendee_id_key''),
        run empty_db cancelled_ops)
   \<and> fst (handleRegister (run empty_db cancelled_ops) 3 (Some ben_profile) workshop 6 ''A2'' 101)
     = Registered
   \<and> map r_status (event_registrations (handleCancelBooking (run empty_db booked_ops) 2 100))
     = [reg_cancelled]
   \<and> (\<exists>err. handleRegister (handleCancelBooking (run empty_db booked_ops) 2 100) 2
               (Some anna_profile) workshop 6 ''A2'' 101 =
             (Failed err, handleCancelBooking (run empty_db booked_ops) 2 100))"
proof -
  have t: "ticketNumber 6 ''A2'' = ''TKT-6-A2''"
    by (simp add: ticketNumber_def dec_string.simps digit_char_def)
  have reg: "handleRegister (run empty_db setup_ops) 2 (Some anna_profile) workshop 5 ''A1'' 100
      = (Registered, run empty_db booked_ops)"
    unfolding booked_db unfolding setup_db
    by (simp add: handleRegister_def insert_registration_def
        attendees_can_create_registrations_def ticketNumber_def dec_string.simps digit_char_def
        anna_profile_def ben_profile_def workshop_def)
  have taken: "p_role anna_profile = attendee \<and> 2 = p_id anna_profile \<and>
      101 \<notin> r_id ` set (event_registrations (run empty_db cancelled_ops)) \<and>
      ticketNumber 6 ''A2'' \<notin> ticket_number ` set (event_registrations (run empty_db cancelled_ops)) \<and>
      list_ex (\<lambda>x. event_id x = e_id workshop \<and> attendee_id x = p_id anna_profile)
        (event_registrations (run empty_db cancelled_ops))"
    by (simp add: t cancelled_db anna_profile_def workshop_def)
  have free: "p_role ben_profile = attendee \<and> 3 = p_id ben_profile \<and>
      101 \<notin> r_id ` set (event_registrations (run empty_db cancelled_ops)) \<and>
      ticketNumber 6 ''A2'' \<notin> ticket_number ` set (event_registrations (run empty_db cancelled_ops)) \<and>
      \<not> list_ex (\<lambda>x. event_id x = e_id workshop \<and> attendee_id x = p_id ben_profile)
        (event_registrations (run empty_db cancelled_ops)) \<and>
      list_ex (\<lambda>e. e_id e = e_id workshop \<and>
                 int (occupied (run empty_db cancelled_ops) (e_id workshop)) < capacity e)
        (events (run empty_db cancelled_ops)) \<and>
      p_id ben_profile \<in> p_id ` set (profiles (run empty_db cancelled_ops))"
    by (simp add: t cancelled_db anna_profile_def ben_profile_def workshop_def occupied_def)
  note c1 = booking_rejected_for_any_existing_row [where p = anna_profile and uid = 2 and nid = 101
        and d = "run empty_db cancelled_ops" and now = 6 and rnd = "''A2''" and ev = workshop
        and rid = 0 and uid' = 0 and ?d1.0 = empty_db and now' = 0 and rnd' = "[]" and nid' = 0,
        THEN conjunct1, THEN mp, OF taken]
  note c2 = booking_rejected_for_any_existing_row [where p = ben_profile and uid = 3 and nid = 101
        and d = "run empty_db cancelled_ops" and now = 6 and rnd = "''A2''" and ev = workshop
        and rid = 0 and uid' = 0 and ?d1.0 = empty_db and now' = 0 and rnd' = "[]" and nid' = 0,
        THEN conjunct2, THEN conjunct1, THEN mp, OF free]
  note after = booking_rejected_for_any_existing_row [where p = anna_profile and uid = 2 and nid = 100
        and d = "run empty_db setup_ops" and now = 5 and rnd = "''A1''" and ev = workshop
        and rid = 0 and uid' = 0
        and ?d1.0 = "run empty_db booked_ops" and now' = 6 and rnd' = "''A2''" and nid' = 101,
        THEN conjunct2, THEN conjunct2, THEN conjunct2, THEN mp, OF reg]
  have c3: "map r_status (event_registrations (handleCancelBooking (run empty_db booked_ops) 2 100))
     = [reg_cancelled]"
    unfolding after [THEN conjunct1] by (simp add: setup_db)
  have c2': "fst (handleRegister (run empty_db cancelled_ops) 3 (Some ben_profile) workshop 6 ''A2'' 101)
     = Registered"
    unfolding c2 by simp
  show ?thesis
    by (intro conjI) (rule c1, rule c2', rule c3, rule after [THEN conjunct2])
qed

theorem rebooking_after_cancel_counterexample:
  "map r_status (event_registrations (run empty_db cancelled_ops)) = [reg_cancelled]
   \<and> occupied (run empty_db cancelled_ops) 10 = 0 \<and> capacity workshop = 1
   \<and> isUpcoming workshop 6 \<and> e_status workshop = published
   \<and> handleRegister (run empty_db cancelled_ops) 2 (Some anna_profile) workshop 6 ''A2'' 101
       = (Failed (Unique_violation ''event_registrations_event_id_attendee_id_key''),
          run empty_db cancelled_ops)"
  by (simp add: cancelled_db occupied_def isUpcoming_def handleRegister_def
      insert_registration_def attendees_can_create_registrations_def ticketNumber_def
      dec_string.simps digit_char_def anna_profile_def workshop_def)

section \<open>Ticket numbers\<close>

text \<open>
  Only the stored rows count: once the cascade of a deleted event has removed the
  holder of a ticket number, a later booking can carry the same number.
\<close>

lemma ticket_reused_after_cascade:
  "map ticket_number (event_registrations (run empty_db booked_ops)) = [''TKT-5-A1'']
   \<and> map attendee_id (event_registrations (run empty_db booked_ops)) = [2]
   \<and> event_registrations (run empty_db (booked_ops @ [Delete_event 1 10])) = []
   \<and> map ticket_number (event_registrations (run empty_db (booked_ops @
        [Delete_event 1 10, Insert_event 1 workshop,
         Register 3 (Some ben_profile) workshop 5 ''A1'' 101]))) = [''TKT-5-A1'']
   \<and> map attendee_id (event_registrations (run empty_db (booked_ops @
        [Delete_event 1 10, Insert_event 1 workshop,
         Register 3 (Some ben_profile) workshop 5 ''A1'' 101]))) = [3]"
  unfolding run_append booked_db
  by (simp add: run_def state_after_def handleDeleteEvent_def delete_event_def
      insert_event_def organizers_can_create_events_def
      organizers_can_manage_their_own_events_def handleRegister_def insert_registration_def
      attendees_can_create_registrations_def ticketNumber_def dec_string.simps digit_char_def
      anna_profile_def ben_profile_def workshop_def)

lemma insert_registration_ticket_exists:
  assumes "ticket_number r \<in> ticket_number ` set (event_registrations d)"
  shows "\<exists>err. insert_registration d uid r = Inl err"
  using assms by (simp add: insert_registration_def)

text \<open>
  C6, as amended. In every reachable state the stored registrations carry pairwise
  different ticket numbers. A generated ticket number that is already stored is not
  generated again: handleRegister fails and inserts nothing, and for an attendee acting
  as itself with a fresh row id the failure is the unique violation on ticket\_number.
\<close>

theorem ticket_numbers_unique_no_retry:
  "distinct (map ticket_number (event_registrations (run empty_db xs)))
   \<and> (p_role p = attendee \<and>
       ticketNumber now rnd \<in> ticket_number ` set (event_registrations d) \<longrightarrow>
         (\<exists>err. handleRegister d uid (Some p) ev now rnd nid = (Failed err, d)))
   \<and> (p_role p = attendee \<and> uid = p_id p \<and> nid \<notin> r_id ` set (event_registrations d) \<and>
       ticketNumber now rnd \<in> ticket_number ` set (event_registrations d) \<longrightarrow>
         handleRegister d uid (Some p) ev now rnd nid =
           (Failed (Unique_violation ''event_registrations_ticket_number_key''), d))"
proof (intro conjI impI)
  show "distinct (map ticket_number (event_registrations (run empty_db xs)))"
    by (rule reachable_tickets_distinct)
next
  assume h: "p_role p = attendee \<and>
       ticketNumber now rnd \<in> ticket_number ` set (event_registrations d)"
  let ?row = "\<lparr>r_id = nid, event_id = e_id ev, attendee_id = p_id p,
                registration_date = int now, r_status = confirmed,
                ticket_number = ticketNumber now rnd, checked_in = False\<rparr>"
  have "ticket_number ?row \<in> ticket_number ` set (event_registrations d)"
    using h by simp
  then obtain err where "insert_registration d uid ?row = Inl err"
    using insert_registration_ticket_exists by blast
  then have "handleRegister d uid (Some p) ev now rnd nid = (Failed err, d)"
    using h by (simp add: handleRegister_def)
  then show "\<exists>err. handleRegister d uid (Some p) ev now rnd nid = (Failed err, d)"
    by blast
next
  assume "p_role p = attendee \<and> uid = p_id p \<and> nid \<notin> r_id ` set (event_registrations d) \<and>
       ticketNumber now rnd \<in> ticket_number ` set (event_registrations d)"
  then show "handleRegister d uid (Some p) ev now rnd nid =
           (Failed (Unique_violation ''event_registrations_ticket_number_key''), d)"
    by (simp add: handleRegister_def insert_registration_def
        attendees_can_create_registrations_def)
qed

theorem ticket_numbers_unique_no_retry_witness:
  "map ticket_number (event_registrations (run empty_db booked_ops)) = [''TKT-5-A1'']
   \<and> distinct (map ticket_number (event_registrations (run empty_db booked_ops)))
   \<and> ticketNumber 5 ''A1'' = ''TKT-5-A1''
   \<and> handleRegister (run empty_db booked_ops) 3 (Some ben_profile) workshop 5 ''A1'' 101 =
        (Failed (Unique_violation ''event_registrations_ticket_number_key''),
         run empty_db booked_ops)"
proof -
  have t: "ticketNumber 5 ''A1'' = ''TKT-5-A1''"
    by (simp add: ticketNumber_def dec_string.simps digit_char_def)
  show ?thesis
    using t ticket_numbers_unique_no_retry [where xs = booked_ops and p = ben_profile
        and uid = 3 and nid = 101 and d = "run empty_db booked_ops" and now = 5
        and rnd = "''A1''" and ev = workshop]
    by (simp add: booked_db ben_profile_def)
qed

theorem ticket_collision_counterexample:
  "ticketNumber 5 ''A1'' \<in> ticket_number `
      set (event_registrations (run empty_db (booked_ops @ [Insert_event 1 conference])))
   \<and> occupied (run empty_db (booked_ops @ [Insert_event 1 conference])) 12 = 0
   \<and> capacity conference = 50
   \<and> handleRegister (run empty_db (booked_ops @ [Insert_event 1 conference])) 3
        (Some ben_profile) conference 5 ''A1'' 101 =
        (Failed (Unique_violation ''event_registrations_ticket_number_key''),
         run empty_db (booked_ops @ [Insert_event 1 conference]))"
  unfolding run_append booked_db
  by (simp add: run_def state_after_def insert_event_def organizers_can_create_events_def
      organizers_can_manage_their_own_events_def conference_def workshop_def
      anna_profile_def ben_profile_def occupied_def handleRegister_def
      insert_registration_def attendees_can_create_registrations_def ticketNumber_def
      dec_string.simps digit_char_def)

end
